theory Spec2Isabelle
  imports Main "HOL-Library.Sublist"
begin

section \<open>Paths: \<^verbatim>\<open>os.path.join\<close>\<close>

text \<open>
  The scripts start with \<^verbatim>\<open>#!/usr/local/bin/python3\<close>, so \<^verbatim>\<open>os.path\<close> is the
  standard library's \<^verbatim>\<open>posixpath\<close>. Its \<^verbatim>\<open>join(a, *p)\<close> starts from \<^verbatim>\<open>path = a\<close> and
  runs, for every further component \<^verbatim>\<open>b\<close>:
  \<^verbatim>\<open>
      if b.startswith(sep):                  path = b
      elif not path or path.endswith(sep):   path += b
      else:                                  path += sep + b
  \<close>
  On two \<^verbatim>\<open>str\<close> arguments nothing in it raises. The variable arguments are a list here.
\<close>

definition sep :: string where
  "sep = ''/''"

definition join_step :: "string \<Rightarrow> string \<Rightarrow> string" where
  "join_step path b =
     (if prefix sep b then b
      else if path = [] \<or> suffix sep path then path @ b
      else path @ sep @ b)"

definition path_join :: "string \<Rightarrow> string list \<Rightarrow> string" where
  "path_join a p = foldl join_step a p"


section \<open>The state the scripts assign to\<close>

text \<open>
  \<^verbatim>\<open>folium.folium._default_js\<close> and \<^verbatim>\<open>folium.folium._default_css\<close> are lists of
  (name, path-or-URL) pairs, \<^verbatim>\<open>folium.raster_layers.TileLayer._template\<close> is a Jinja
  template, kept as its source text. The files present on the local disk are part of the
  world the functions run in, so that a function that looked at them could be told from
  one that does not.
\<close>

record world =
  default_js :: "(string \<times> string) list"
  default_css :: "(string \<times> string) list"
  TileLayer_template :: string
  disk :: "string set"


section \<open>\<^verbatim>\<open>set_offline\<close> and \<^verbatim>\<open>set_online\<close>\<close>

text \<open>
  Every path of the source is written \<^verbatim>\<open>f'{os.path.join(file_path, "...")}'\<close>: the
  f-string formats one \<^verbatim>\<open>str\<close> with an empty format specification, which gives the
  string itself.
\<close>

definition set_offline :: "string \<Rightarrow> world \<Rightarrow> world" where
  "set_offline file_path w = w
     \<lparr> default_js :=
         [ (''leaflet'', path_join file_path [''leaflet.js'']),
           (''jquery'', path_join file_path [''jquery-1.12.4.min.js'']),
           (''bootstrap'', path_join file_path [''bootstrap.min.js'']),
           (''awesome_markers'', path_join file_path [''leaflet.awesome-markers.js'']),
           (''sql'', path_join file_path [''sql.js'']),
           (''sql-wasm'', path_join file_path [''sql-wasm.js'']),
           (''sql-asm'', path_join file_path [''sql-adm.js'']),
           (''mbtiles'', path_join file_path [''Leaflet.TileLayer.MBTiles.js'']) ],
       default_css :=
         [ (''leaflet_css'', path_join file_path [''leaflet.css'']),
           (''bootstrap_css'', path_join file_path [''bootstrap.min.css'']),
           (''bootstrap_theme_css'', path_join file_path [''bootstrap-theme.min.css'']),
           (''awesome_markers_font_css'', path_join file_path [''font-awesome.min.css'']),
           (''awesome_markers_css'', path_join file_path [''leaflet.awesome-markers.css'']),
           (''awesome_rotate_css'', path_join file_path [''leaflet.awesome.rotate.css'']) ] \<rparr>"

definition set_online :: "string \<Rightarrow> world \<Rightarrow> world" where
  "set_online file_path w = w
     \<lparr> default_js :=
         [ (''leaflet'', ''https://cdn.jsdelivr.net/npm/leaflet@1.5.1/dist/leaflet.js''),
           (''jquery'', ''https://code.jquery.com/jquery-1.12.4.min.js''),
           (''bootstrap'', ''https://maxcdn.bootstrapcdn.com/bootstrap/3.2.0/js/bootstrap.min.js''),
           (''awesome_markers'',
            ''https://cdnjs.cloudflare.com/ajax/libs/Leaflet.awesome-markers/2.0.2/leaflet.awesome-markers.js''),
           (''sql'', ''https://unpkg.com/sql.js@0.3.2/js/sql.js''),
           (''mbtiles'', path_join file_path [''Leaflet.TileLayer.MBTiles.js'']) ] \<rparr>"


section \<open>\<^verbatim>\<open>set_mbtiles\<close> and the template it installs\<close>

text \<open>
  The source text handed to \<^verbatim>\<open>Template(u"""...""")\<close>, line by line: it opens with a
  line break, and its last line is the eight blanks before the closing quotes.
\<close>

definition nl :: string where
  "nl = [CHR 0x0A]"

definition mbtiles_template :: string where
  "mbtiles_template =
     nl @
     ''        {% macro script(this, kwargs) %}'' @ nl @
     ''            var {{ this.get_name() }} = L.tileLayer.mbTiles('' @ nl @
     ''                {{ this.tiles|tojson }},'' @ nl @
     ''                {{ this.options|tojson }}'' @ nl @
     ''            ).addTo({{ this._parent.get_name() }});'' @ nl @
     ''        {% endmacro %}'' @ nl @
     ''        ''"

definition set_mbtiles :: "world \<Rightarrow> world" where
  "set_mbtiles w = w \<lparr> TileLayer_template := mbtiles_template \<rparr>"


section \<open>Rendering a macro of a Jinja template\<close>

text \<open>
  folium renders a layer by calling the macro \<^verbatim>\<open>script(this, kwargs)\<close> of the element's
  template. Of Jinja, what the installed template uses is modelled: the text is cut into
  data, \<^verbatim>\<open>{{ expression }}\<close>, \<^verbatim>\<open>{% statement %}\<close> and \<^verbatim>\<open>{# comment #}\<close>
  (an unclosed delimiter is a syntax error, \<open>None\<close>); the body of a macro runs from its
  \<^verbatim>\<open>{% macro name(...) %}\<close> to the next \<^verbatim>\<open>{% endmacro %}\<close>, with no statement nested in
  it; rendering copies the data as it stands (a \<^verbatim>\<open>Template\<close> built this way trims no
  white space) and replaces each expression by the text of its value. The values come
  from the object the macro is called on, so they are a parameter: \<open>ev\<close> maps the text of
  an expression to the text Jinja would put in its place.
\<close>

datatype token = Data string | Var string | Block string

datatype mode = InData | InVar | InBlock | InComment

definition flush :: "string \<Rightarrow> token list" where
  "flush acc = (if acc = [] then [] else [Data acc])"

fun lex :: "mode \<Rightarrow> string \<Rightarrow> string \<Rightarrow> token list option" where
  "lex m acc [] = (case m of InData \<Rightarrow> Some (flush acc) | _ \<Rightarrow> None)"
| "lex m acc [c] = (case m of InData \<Rightarrow> Some (flush (acc @ [c])) | _ \<Rightarrow> None)"
| "lex m acc (c # d # cs) =
     (case m of
        InData \<Rightarrow>
          if [c, d] = ''{{'' then map_option ((@) (flush acc)) (lex InVar [] cs)
          else if [c, d] = ''{%'' then map_option ((@) (flush acc)) (lex InBlock [] cs)
          else if [c, d] = ''{#'' then map_option ((@) (flush acc)) (lex InComment [] cs)
          else lex InData (acc @ [c]) (d # cs)
      | InVar \<Rightarrow>
          if [c, d] = ''}}'' then map_option ((#) (Var acc)) (lex InData [] cs)
          else lex InVar (acc @ [c]) (d # cs)
      | InBlock \<Rightarrow>
          if [c, d] = ''%}'' then map_option ((#) (Block acc)) (lex InData [] cs)
          else lex InBlock (acc @ [c]) (d # cs)
      | InComment \<Rightarrow>
          if [c, d] = ''#}'' then lex InData [] cs
          else lex InComment acc (d # cs))"

definition is_space :: "char \<Rightarrow> bool" where
  "is_space c = (c = CHR '' '' \<or> c = CHR 0x0A \<or> c = CHR 0x09 \<or> c = CHR 0x0D)"

definition strip :: "string \<Rightarrow> string" where
  "strip s = rev (dropWhile is_space (rev (dropWhile is_space s)))"

fun until_endmacro :: "token list \<Rightarrow> token list option" where
  "until_endmacro [] = None"
| "until_endmacro (Block b # ts) = (if strip b = ''endmacro'' then Some [] else None)"
| "until_endmacro (t # ts) = map_option ((#) t) (until_endmacro ts)"

fun macro_body :: "string \<Rightarrow> token list \<Rightarrow> token list option" where
  "macro_body name [] = None"
| "macro_body name (Block b # ts) =
     (if prefix (''macro '' @ name @ ''('') (strip b) then until_endmacro ts
      else macro_body name ts)"
| "macro_body name (t # ts) = macro_body name ts"

fun render_token :: "(string \<Rightarrow> string) \<Rightarrow> token \<Rightarrow> string" where
  "render_token ev (Data s) = s"
| "render_token ev (Var e) = ev (strip e)"
| "render_token ev (Block b) = []"

definition render_macro :: "string \<Rightarrow> string \<Rightarrow> (string \<Rightarrow> string) \<Rightarrow> string option" where
  "render_macro src name ev =
     (case lex InData [] src of
        None \<Rightarrow> None
      | Some ts \<Rightarrow> map_option (\<lambda>body. concat (map (render_token ev) body)) (macro_body name ts))"


section \<open>The packaging script\<close>

text \<open>
  \<^verbatim>\<open>build_simple_server.py\<close> is one statement, \<^verbatim>\<open>subprocess.call([...])\<close>.
  \<^verbatim>\<open>subprocess.call\<close> starts the program and waits: it raises \<^verbatim>\<open>OSError\<close> when the
  program cannot be started and returns the exit status otherwise. What the external
  program does is the parameter \<open>run\<close>; the commands handed to \<^verbatim>\<open>subprocess.call\<close> are
  logged in order.
\<close>

datatype call_result = OSError | Exit int

datatype outcome = Finished | Uncaught

definition subprocess_call ::
  "(string list \<Rightarrow> call_result) \<Rightarrow> string list \<Rightarrow> string list list
     \<Rightarrow> call_result \<times> string list list" where
  "subprocess_call run args log = (run args, log @ [args])"

definition build_simple_server ::
  "(string list \<Rightarrow> call_result) \<Rightarrow> string list list \<Rightarrow> outcome \<times> string list list" where
  "build_simple_server run log =
     (case subprocess_call run [''pyinstaller'', ''--clean'', ''--onefile'', ''server.py''] log of
        (OSError, log') \<Rightarrow> (Uncaught, log')
      | (Exit status, log') \<Rightarrow> (Finished, log'))"


section \<open>Helper facts\<close>

lemma path_join_single:
  "path_join a [b] = join_step a b"
  by (simp add: path_join_def)

lemma lex_mbtiles_template:
  "lex InData [] mbtiles_template =
     Some [Data (nl @ ''        ''), Block '' macro script(this, kwargs) '',
           Data (nl @ ''            var ''), Var '' this.get_name() '',
           Data ('' = L.tileLayer.mbTiles('' @ nl @ ''                ''),
           Var '' this.tiles|tojson '',
           Data ('','' @ nl @ ''                ''),
           Var '' this.options|tojson '',
           Data (nl @ ''            ).addTo(''),
           Var '' this._parent.get_name() '',
           Data ('');'' @ nl @ ''        ''),
           Block '' endmacro '', Data (nl @ ''        '')]"
  by code_simp

lemma strip_exprs:
  "strip '' macro script(this, kwargs) '' = ''macro script(this, kwargs)''"
  "strip '' endmacro '' = ''endmacro''"
  "strip '' this.get_name() '' = ''this.get_name()''"
  "strip '' this.tiles|tojson '' = ''this.tiles|tojson''"
  "strip '' this.options|tojson '' = ''this.options|tojson''"
  "strip '' this._parent.get_name() '' = ''this._parent.get_name()''"
  by code_simp+

lemma render_mbtiles_script:
  "render_macro mbtiles_template ''script'' ev =
     Some (nl @ ''            var '' @ ev ''this.get_name()'' @
           '' = L.tileLayer.mbTiles('' @ nl @
           ''                '' @ ev ''this.tiles|tojson'' @ '','' @ nl @
           ''                '' @ ev ''this.options|tojson'' @ nl @
           ''            ).addTo('' @ ev ''this._parent.get_name()'' @ '');'' @ nl @
           ''        '')"
  by (simp add: render_macro_def lex_mbtiles_template strip_exprs)


section \<open>Offline asset lists\<close>

text \<open>
  C1. For every string \<open>file_path\<close> and whatever the lists held before,
  \<^verbatim>\<open>set_offline(file_path)\<close> leaves in \<^verbatim>\<open>_default_js\<close> exactly the eight entries named
  leaflet, jquery, bootstrap, awesome_markers, sql, sql-wasm, sql-asm, mbtiles and in
  \<^verbatim>\<open>_default_css\<close> exactly the six entries named leaflet_css, bootstrap_css,
  bootstrap_theme_css, awesome_markers_font_css, awesome_markers_css, awesome_rotate_css,
  in that order, the path of each being \<^verbatim>\<open>os.path.join(file_path, f)\<close> for the entry's
  fixed file name \<open>f\<close>.
\<close>

theorem set_offline_asset_lists:
  "default_js (set_offline file_path w) =
     zip [''leaflet'', ''jquery'', ''bootstrap'', ''awesome_markers'',
          ''sql'', ''sql-wasm'', ''sql-asm'', ''mbtiles'']
         (map (\<lambda>f. path_join file_path [f])
            [''leaflet.js'', ''jquery-1.12.4.min.js'', ''bootstrap.min.js'',
             ''leaflet.awesome-markers.js'', ''sql.js'', ''sql-wasm.js'', ''sql-adm.js'',
             ''Leaflet.TileLayer.MBTiles.js''])
   \<and> default_css (set_offline file_path w) =
     zip [''leaflet_css'', ''bootstrap_css'', ''bootstrap_theme_css'',
          ''awesome_markers_font_css'', ''awesome_markers_css'', ''awesome_rotate_css'']
         (map (\<lambda>f. path_join file_path [f])
            [''leaflet.css'', ''bootstrap.min.css'', ''bootstrap-theme.min.css'',
             ''font-awesome.min.css'', ''leaflet.awesome-markers.css'',
             ''leaflet.awesome.rotate.css''])
   \<and> length (default_js (set_offline file_path w)) = 8
   \<and> length (default_css (set_offline file_path w)) = 6"
  by (simp add: set_offline_def)


section \<open>Online asset lists\<close>

text \<open>
  C2, as the spec has it, says \<^verbatim>\<open>set_online\<close> sets both lists to entries with remote
  URLs. It assigns the JavaScript list only. Called after
  \<^verbatim>\<open>set_offline('offline')\<close>, it leaves the six local style-sheet paths in
  \<^verbatim>\<open>_default_css\<close>, the first of which, \<^verbatim>\<open>offline/leaflet.css\<close>, is no URL.
\<close>

theorem set_online_css_counterexample:
  "default_css (set_online ''offline'' (set_offline ''offline''
       \<lparr>default_js = [], default_css = [], TileLayer_template = [], disk = {}\<rparr>)) =
     [ (''leaflet_css'', ''offline/leaflet.css''),
       (''bootstrap_css'', ''offline/bootstrap.min.css''),
       (''bootstrap_theme_css'', ''offline/bootstrap-theme.min.css''),
       (''awesome_markers_font_css'', ''offline/font-awesome.min.css''),
       (''awesome_markers_css'', ''offline/leaflet.awesome-markers.css''),
       (''awesome_rotate_css'', ''offline/leaflet.awesome.rotate.css'') ]
   \<and> \<not> prefix ''https://'' (snd (hd (default_css (set_online ''offline'' (set_offline ''offline''
       \<lparr>default_js = [], default_css = [], TileLayer_template = [], disk = {}\<rparr>)))))"
  by (simp add: set_online_def set_offline_def path_join_def join_step_def sep_def
        suffix_to_prefix)

text \<open>
  C2, amended. For every string \<open>file_path\<close>, \<^verbatim>\<open>set_online(file_path)\<close> sets the
  JavaScript list to six entries: leaflet, jquery, bootstrap, awesome_markers and sql with
  their fixed remote URLs, and mbtiles with the local path
  \<^verbatim>\<open>os.path.join(file_path, 'Leaflet.TileLayer.MBTiles.js')\<close>. The style-sheet list is
  not assigned: it is what it was before the call.
\<close>

theorem set_online_js_list:
  "default_js (set_online file_path w) =
     [ (''leaflet'', ''https://cdn.jsdelivr.net/npm/leaflet@1.5.1/dist/leaflet.js''),
       (''jquery'', ''https://code.jquery.com/jquery-1.12.4.min.js''),
       (''bootstrap'', ''https://maxcdn.bootstrapcdn.com/bootstrap/3.2.0/js/bootstrap.min.js''),
       (''awesome_markers'',
        ''https://cdnjs.cloudflare.com/ajax/libs/Leaflet.awesome-markers/2.0.2/leaflet.awesome-markers.js''),
       (''sql'', ''https://unpkg.com/sql.js@0.3.2/js/sql.js''),
       (''mbtiles'', path_join file_path [''Leaflet.TileLayer.MBTiles.js'']) ]
   \<and> default_css (set_online file_path w) = default_css w"
  by (simp add: set_online_def)


section \<open>The tile-layer template\<close>

text \<open>
  C4. \<^verbatim>\<open>set_mbtiles()\<close> replaces \<^verbatim>\<open>TileLayer._template\<close> by the template of the source,
  and whatever object the macro \<^verbatim>\<open>script\<close> of that template is rendered against (whatever
  texts its expressions evaluate to), rendering succeeds and the output declares the layer
  variable as a call of \<^verbatim>\<open>L.tileLayer.mbTiles(\<close>; the template nowhere calls the plain
  \<^verbatim>\<open>L.tileLayer(\<close>.
\<close>

theorem set_mbtiles_renders_mbTiles:
  "TileLayer_template (set_mbtiles w) = mbtiles_template
   \<and> (\<exists>before after.
        render_macro (TileLayer_template (set_mbtiles w)) ''script'' ev =
          Some (before @ ''var '' @ ev ''this.get_name()'' @ '' = L.tileLayer.mbTiles('' @ after))
   \<and> (\<exists>out. render_macro (TileLayer_template (set_mbtiles w)) ''script'' ev = Some out
          \<and> sublist ''L.tileLayer.mbTiles'' out)
   \<and> \<not> sublist ''L.tileLayer('' mbtiles_template"
proof (intro conjI)
  show tpl: "TileLayer_template (set_mbtiles w) = mbtiles_template"
    by (simp add: set_mbtiles_def)
  let ?out = "nl @ ''            var '' @ ev ''this.get_name()'' @
           '' = L.tileLayer.mbTiles('' @ nl @
           ''                '' @ ev ''this.tiles|tojson'' @ '','' @ nl @
           ''                '' @ ev ''this.options|tojson'' @ nl @
           ''            ).addTo('' @ ev ''this._parent.get_name()'' @ '');'' @ nl @
           ''        ''"
  have r: "render_macro (TileLayer_template (set_mbtiles w)) ''script'' ev = Some ?out"
    by (simp only: tpl render_mbtiles_script)
  have "?out = (nl @ ''            '') @ ''var '' @ ev ''this.get_name()'' @
          '' = L.tileLayer.mbTiles('' @
          (nl @ ''                '' @ ev ''this.tiles|tojson'' @ '','' @ nl @
           ''                '' @ ev ''this.options|tojson'' @ nl @
           ''            ).addTo('' @ ev ''this._parent.get_name()'' @ '');'' @ nl @
           ''        '')"
    by simp
  with r show "\<exists>before after.
        render_macro (TileLayer_template (set_mbtiles w)) ''script'' ev =
          Some (before @ ''var '' @ ev ''this.get_name()'' @ '' = L.tileLayer.mbTiles('' @ after)"
    by metis
  have "?out = (nl @ ''            var '' @ ev ''this.get_name()'' @ '' = '') @
          ''L.tileLayer.mbTiles'' @
          (''('' @ nl @ ''                '' @ ev ''this.tiles|tojson'' @ '','' @ nl @
           ''                '' @ ev ''this.options|tojson'' @ nl @
           ''            ).addTo('' @ ev ''this._parent.get_name()'' @ '');'' @ nl @
           ''        '')"
    by simp
  then have "sublist ''L.tileLayer.mbTiles'' ?out"
    by (metis sublist_appendI)
  with r show "\<exists>out. render_macro (TileLayer_template (set_mbtiles w)) ''script'' ev = Some out
          \<and> sublist ''L.tileLayer.mbTiles'' out"
    by blast
  show "\<not> sublist ''L.tileLayer('' mbtiles_template"
    by code_simp
qed


section \<open>No look at the disk\<close>

text \<open>
  C5. For every string \<open>file_path\<close>, \<^verbatim>\<open>set_offline\<close> and \<^verbatim>\<open>set_online\<close> return (they
  are total: the source has no \<^verbatim>\<open>raise\<close>, and joining two strings cannot fail) and
  neither reads nor changes the files on disk: run with any other set of files, the
  empty one included, they give the same lists.
\<close>

theorem config_ignores_disk:
  "set_offline file_path (w\<lparr>disk := d\<rparr>) = (set_offline file_path w)\<lparr>disk := d\<rparr>
   \<and> set_online file_path (w\<lparr>disk := d\<rparr>) = (set_online file_path w)\<lparr>disk := d\<rparr>
   \<and> disk (set_offline file_path w) = disk w
   \<and> disk (set_online file_path w) = disk w
   \<and> default_js (set_offline file_path (w\<lparr>disk := {}\<rparr>)) = default_js (set_offline file_path w)
   \<and> default_css (set_offline file_path (w\<lparr>disk := {}\<rparr>)) = default_css (set_offline file_path w)
   \<and> default_js (set_online file_path (w\<lparr>disk := {}\<rparr>)) = default_js (set_online file_path w)"
  by (simp add: set_offline_def set_online_def)


section \<open>Overwriting\<close>

text \<open>
  C6. The lists \<^verbatim>\<open>set_offline(file_path)\<close> leaves do not depend on the state before the
  call; calling it twice is calling it once; calling it after \<^verbatim>\<open>set_online(file_path)\<close>
  is calling it alone.
\<close>

theorem set_offline_overwrites:
  "default_js (set_offline file_path w) = default_js (set_offline file_path w')
   \<and> default_css (set_offline file_path w) = default_css (set_offline file_path w')
   \<and> set_offline file_path (set_offline file_path w) = set_offline file_path w
   \<and> set_offline file_path (set_online file_path w) = set_offline file_path w"
  by (simp add: set_offline_def set_online_def)


section \<open>The packaging script\<close>

text \<open>
  C7. Whatever the external program does, the packaging script hands
  \<^verbatim>\<open>subprocess.call\<close> exactly one command, \<^verbatim>\<open>pyinstaller --clean --onefile server.py\<close>,
  and when the program runs the script finishes the same way for every exit status.
\<close>

theorem build_runs_pyinstaller_once:
  "snd (build_simple_server run []) = [[''pyinstaller'', ''--clean'', ''--onefile'', ''server.py'']]
   \<and> snd (build_simple_server run log) =
       log @ [[''pyinstaller'', ''--clean'', ''--onefile'', ''server.py'']]
   \<and> build_simple_server (\<lambda>args. Exit status) log = build_simple_server (\<lambda>args. Exit 0) log
   \<and> fst (build_simple_server (\<lambda>args. Exit status) log) = Finished"
  by (simp add: build_simple_server_def subprocess_call_def
        split: call_result.splits prod.splits)


section \<open>Frame conditions\<close>

text \<open>
  C8. For every string \<open>file_path\<close>, \<^verbatim>\<open>set_online(file_path)\<close> leaves \<^verbatim>\<open>_default_css\<close>
  as it was, also when it was set by an earlier \<^verbatim>\<open>set_offline\<close>.
\<close>

theorem set_online_keeps_css:
  "default_css (set_online file_path w) = default_css w
   \<and> default_css (set_online file_path (set_offline dir w)) = default_css (set_offline dir w)"
  by (simp add: set_online_def)

text \<open>
  C9. In the JavaScript list of \<^verbatim>\<open>set_offline(file_path)\<close> the one entry named
  \<^verbatim>\<open>sql-asm\<close> has the path \<^verbatim>\<open>os.path.join(file_path, 'sql-adm.js')\<close>, which is not the
  join with \<^verbatim>\<open>sql-asm.js\<close>: it ends in \<^verbatim>\<open>sql-adm.js\<close> and not in \<^verbatim>\<open>sql-asm.js\<close>.
\<close>

theorem sql_asm_entry_names_sql_adm:
  "default_js (set_offline file_path w) ! 6 = (''sql-asm'', path_join file_path [''sql-adm.js''])
   \<and> filter (\<lambda>e. fst e = ''sql-asm'') (default_js (set_offline file_path w)) =
       [(''sql-asm'', path_join file_path [''sql-adm.js''])]
   \<and> path_join file_path [''sql-adm.js''] \<noteq> path_join file_path [''sql-asm.js'']
   \<and> suffix ''sql-adm.js'' (path_join file_path [''sql-adm.js''])
   \<and> \<not> suffix ''sql-asm.js'' (path_join file_path [''sql-adm.js''])"
proof (intro conjI)
  show "default_js (set_offline file_path w) ! 6 =
          (''sql-asm'', path_join file_path [''sql-adm.js''])"
    by (simp add: set_offline_def)
  show "filter (\<lambda>e. fst e = ''sql-asm'') (default_js (set_offline file_path w)) =
       [(''sql-asm'', path_join file_path [''sql-adm.js''])]"
    by (simp add: set_offline_def)
  show "path_join file_path [''sql-adm.js''] \<noteq> path_join file_path [''sql-asm.js'']"
    by (simp add: path_join_single join_step_def sep_def)
  have "\<exists>p. path_join file_path [''sql-adm.js''] = p @ ''sql-adm.js''"
    by (simp add: path_join_single join_step_def sep_def)
  then obtain p where p: "path_join file_path [''sql-adm.js''] = p @ ''sql-adm.js''" ..
  show "suffix ''sql-adm.js'' (path_join file_path [''sql-adm.js''])"
    unfolding p by (rule suffixI) simp
  show "\<not> suffix ''sql-asm.js'' (path_join file_path [''sql-adm.js''])"
    unfolding p by (simp add: suffix_def)
qed

text \<open>
  C10. \<^verbatim>\<open>set_mbtiles()\<close> changes the template only: both asset lists (and the disk) are
  as before, and it commutes with \<^verbatim>\<open>set_offline\<close> and with \<^verbatim>\<open>set_online\<close>.
\<close>

theorem set_mbtiles_frame:
  "default_js (set_mbtiles w) = default_js w
   \<and> default_css (set_mbtiles w) = default_css w
   \<and> disk (set_mbtiles w) = disk w
   \<and> set_mbtiles (set_offline file_path w) = set_offline file_path (set_mbtiles w)
   \<and> set_mbtiles (set_online file_path w) = set_online file_path (set_mbtiles w)"
  by (simp add: set_mbtiles_def set_offline_def set_online_def)

end
